theory Spec2Isabelle
  imports Main
begin

section \<open>Generic datablock synchronisation (mixer/blender\_client/data.py)\<close>

text \<open>
  The module translates changesets of the local data store into commands for the
  broadcaster (\<open>send_data_*\<close>) and applies received command payloads to the local
  store (\<open>build_data_*\<close>). Everything it touches outside itself is a collaborator:
  the JSON \<open>Codec\<close>, the string framing of \<open>mixer.broadcaster.common\<close>, the
  \<open>share_data\<close> singleton (the experimental-sync switch, the client's command
  queue, the \<open>bpy_data_proxy\<close> store, the dirty flag) and the module's logger.
  The collaborators' code is not part of the module; they are parameters of the model
  (record \<open>collaborators\<close>), and what they mutate is a field of the record \<open>world\<close>
  that every operation takes and returns.
\<close>

subsection \<open>Exceptions and outcomes\<close>

text \<open>
  Python exceptions are values. \<open>Raised msg\<close> is an instance of a subclass of
  \<open>Exception\<close> raised by a collaborator; \<open>UnboundLocalError v\<close> is what the
  interpreter raises when the local variable \<open>v\<close> is read before any assignment to
  it was executed. Both are subclasses of \<open>Exception\<close>, so the clause
  \<open>except Exception\<close> of the module catches every value of this type.
\<close>

datatype exn = Raised string | UnboundLocalError string

text \<open>How a call of one of the module's functions ends; all of them return \<open>None\<close>.\<close>

datatype outcome = Returns | Raises exn

subsection \<open>Commands, changesets and the log\<close>

datatype MessageType =
    BLENDER_DATA_CREATE
  | BLENDER_DATA_UPDATE
  | BLENDER_DATA_REMOVE
  | BLENDER_DATA_RENAME

text \<open>Isabelle's \<open>char\<close> is an 8-bit value; \<open>bytes\<close> and \<open>str\<close> are both lists of them.\<close>

type_synonym bytes = string

text \<open>
  Modelled from the spec: \<open>common.Command(command_type, data, command_id)\<close> is not
  part of the module; the spec describes it as the message envelope
  \<open>{kind, payload, reserved}\<close>. The module always builds it with three positional
  arguments.
\<close>

datatype Command = Command (kind: MessageType) (payload: bytes) (reserved: int)

type_synonym RemovalChangeset = "(string \<times> string) list"
type_synonym RenameChangeset = "(string \<times> string \<times> string) list"

text \<open>A record of the module's logger: its level and its formatted message.\<close>

datatype log_record = INFO string | ERROR string

subsection \<open>Collaborators\<close>

text \<open>
  \<open>'r\<close> is the type of the records the Codec handles (datablock proxies and
  deltas: \<open>Codec.decode\<close> is not told which), \<open>'i\<close> the type of the datablock
  \<open>create_datablock\<close> returns, \<open>'s\<close> the state of \<open>share_data.bpy_data_proxy\<close>.
  A store operation returns the store as it leaves it together with either the exception
  it raised (\<open>Inl\<close>) or its result (\<open>Inr\<close>). The Codec can raise; the string framing
  has the total signatures the spec gives it:
  \<open>encode_string(s) -> bytes\<close>, \<open>decode_string(bytes, offset) -> (s, next_offset)\<close>.
  \<open>str_of\<close> is the text of a record in a log message and \<open>format_exc\<close> the lines of
  \<open>traceback.format_exc().splitlines()\<close> for the exception being handled.
\<close>

record ('r, 'i, 's) collaborators =
  codec_encode :: "'r \<Rightarrow> exn + string"
  codec_decode :: "string \<Rightarrow> exn + 'r"
  encode_string :: "string \<Rightarrow> bytes"
  decode_string :: "bytes \<Rightarrow> nat \<Rightarrow> string \<times> nat"
  create_datablock :: "'r \<Rightarrow> 's \<Rightarrow> 's \<times> (exn + 'i \<times> RenameChangeset option)"
  update_datablock :: "'r \<Rightarrow> 's \<Rightarrow> 's \<times> (exn + unit)"
  remove_datablock :: "string \<Rightarrow> 's \<Rightarrow> 's \<times> (exn + unit)"
  rename_datablock :: "string \<Rightarrow> string \<Rightarrow> 's \<Rightarrow> 's \<times> (exn + unit)"
  str_of :: "'r \<Rightarrow> string"
  format_exc :: "exn \<Rightarrow> string list"

subsection \<open>The state the module reads and writes\<close>

text \<open>
  \<open>use_experimental_sync\<close> is what \<open>share_data.use_experimental_sync()\<close> returns,
  \<open>client\<close> the commands handed to \<open>share_data.client.add_command\<close>, oldest first,
  \<open>dirty\<close> whether \<open>share_data.set_dirty()\<close> has been called, \<open>logger\<close> the records
  logged so far, oldest first.
\<close>

record 's world =
  use_experimental_sync :: bool
  client :: "Command list"
  bpy_data_proxy :: 's
  dirty :: bool
  logger :: "log_record list"

definition add_command :: "Command \<Rightarrow> 's world \<Rightarrow> 's world" where
  "add_command command w = w\<lparr>client := client w @ [command]\<rparr>"

definition set_dirty :: "'s world \<Rightarrow> 's world" where
  "set_dirty w = w\<lparr>dirty := True\<rparr>"

definition logger_info :: "string \<Rightarrow> 's world \<Rightarrow> 's world" where
  "logger_info msg w = w\<lparr>logger := logger w @ [INFO msg]\<rparr>"

definition logger_error :: "string \<Rightarrow> 's world \<Rightarrow> 's world" where
  "logger_error msg w = w\<lparr>logger := logger w @ [ERROR msg]\<rparr>"

text \<open>\<open>for line in traceback.format_exc().splitlines(): logger.error(line)\<close>\<close>

primrec log_lines :: "string list \<Rightarrow> 's world \<Rightarrow> 's world" where
  "log_lines [] w = w"
| "log_lines (line # lines) w = log_lines lines (logger_error line w)"

subsection \<open>Python slices\<close>

text \<open>
  \<open>xs[i:j]\<close>: a negative bound counts from the end, and both bounds are clamped to
  \<open>0 .. len(xs)\<close>; the slice is empty when the first bound is not before the second.
\<close>

definition slice_bound :: "int \<Rightarrow> nat \<Rightarrow> nat" where
  "slice_bound i n = (if i < 0 then nat (max (i + int n) 0) else min (nat i) n)"

definition py_slice :: "'a list \<Rightarrow> int \<Rightarrow> int \<Rightarrow> 'a list" where
  "py_slice xs i j =
     (let a = slice_bound i (length xs); b = slice_bound j (length xs)
      in take (b - a) (drop a xs))"

subsection \<open>Sending creations and updates\<close>

text \<open>The body of \<open>for proxy in proxies\<close> in \<open>send_data_creations\<close>, then the loop.\<close>

definition send_data_create ::
  "('r, 'i, 's) collaborators \<Rightarrow> 'r \<Rightarrow> 's world \<Rightarrow> 's world" where
  "send_data_create env proxy w =
     (let w = logger_info (''send_data_create '' @ str_of env proxy) w
      in case codec_encode env proxy of
           Inl e \<Rightarrow>
             log_lines (format_exc env e)
               (logger_error (''send_data_create: encode exception for '' @ str_of env proxy) w)
         | Inr encoded_proxy \<Rightarrow>
             (let buffer = encode_string env encoded_proxy;
                  command = Command BLENDER_DATA_CREATE buffer 0
              in add_command command w))"

primrec send_data_creations_loop ::
  "('r, 'i, 's) collaborators \<Rightarrow> 'r list \<Rightarrow> 's world \<Rightarrow> 's world" where
  "send_data_creations_loop env [] w = w"
| "send_data_creations_loop env (proxy # proxies) w =
     send_data_creations_loop env proxies (send_data_create env proxy w)"

definition send_data_creations ::
  "('r, 'i, 's) collaborators \<Rightarrow> 'r list \<Rightarrow> 's world \<Rightarrow> 's world \<times> outcome" where
  "send_data_creations env proxies w =
     (if \<not> use_experimental_sync w then (w, Returns)
      else (send_data_creations_loop env proxies w, Returns))"

text \<open>The body of \<open>for update in updates\<close> in \<open>send_data_updates\<close>, then the loop.\<close>

definition send_data_update ::
  "('r, 'i, 's) collaborators \<Rightarrow> 'r \<Rightarrow> 's world \<Rightarrow> 's world" where
  "send_data_update env update w =
     (let w = logger_info (''send_data_update '' @ str_of env update) w
      in case codec_encode env update of
           Inl e \<Rightarrow>
             log_lines (format_exc env e)
               (logger_error (''send_data_update: encode exception for '' @ str_of env update) w)
         | Inr encoded_update \<Rightarrow>
             (let buffer = encode_string env encoded_update;
                  command = Command BLENDER_DATA_UPDATE buffer 0
              in add_command command w))"

primrec send_data_updates_loop ::
  "('r, 'i, 's) collaborators \<Rightarrow> 'r list \<Rightarrow> 's world \<Rightarrow> 's world" where
  "send_data_updates_loop env [] w = w"
| "send_data_updates_loop env (update # updates) w =
     send_data_updates_loop env updates (send_data_update env update w)"

definition send_data_updates ::
  "('r, 'i, 's) collaborators \<Rightarrow> 'r list \<Rightarrow> 's world \<Rightarrow> 's world \<times> outcome" where
  "send_data_updates env updates w =
     (if \<not> use_experimental_sync w then (w, Returns)
      else (send_data_updates_loop env updates w, Returns))"

subsection \<open>Sending removals and renames\<close>

definition send_removal ::
  "('r, 'i, 's) collaborators \<Rightarrow> string \<times> string \<Rightarrow> 's world \<Rightarrow> 's world" where
  "send_removal env removal w =
     (case removal of (uuid, debug_info) \<Rightarrow>
        (let w = logger_info (''send_removal: '' @ uuid @ '' ('' @ debug_info @ '')'') w;
             buffer = encode_string env uuid @ encode_string env debug_info;
             command = Command BLENDER_DATA_REMOVE buffer 0
         in add_command command w))"

primrec send_data_removals_loop ::
  "('r, 'i, 's) collaborators \<Rightarrow> RemovalChangeset \<Rightarrow> 's world \<Rightarrow> 's world" where
  "send_data_removals_loop env [] w = w"
| "send_data_removals_loop env (removal # removals) w =
     send_data_removals_loop env removals (send_removal env removal w)"

definition send_data_removals ::
  "('r, 'i, 's) collaborators \<Rightarrow> RemovalChangeset \<Rightarrow> 's world \<Rightarrow> 's world \<times> outcome" where
  "send_data_removals env removals w =
     (if \<not> use_experimental_sync w then (w, Returns)
      else (send_data_removals_loop env removals w, Returns))"

definition send_rename ::
  "('r, 'i, 's) collaborators \<Rightarrow> string \<times> string \<times> string \<Rightarrow> 's world \<Rightarrow> 's world" where
  "send_rename env rename w =
     (case rename of (uuid, new_name, debug_info) \<Rightarrow>
        (let w = logger_info
                   (''send_rename: '' @ uuid @ '' ('' @ debug_info @ '') into '' @ new_name) w;
             buffer = encode_string env uuid @ encode_string env new_name
                        @ encode_string env debug_info;
             command = Command BLENDER_DATA_RENAME buffer 0
         in add_command command w))"

primrec send_data_renames_loop ::
  "('r, 'i, 's) collaborators \<Rightarrow> RenameChangeset \<Rightarrow> 's world \<Rightarrow> 's world" where
  "send_data_renames_loop env [] w = w"
| "send_data_renames_loop env (rename # renames) w =
     send_data_renames_loop env renames (send_rename env rename w)"

definition send_data_renames ::
  "('r, 'i, 's) collaborators \<Rightarrow> RenameChangeset \<Rightarrow> 's world \<Rightarrow> 's world \<times> outcome" where
  "send_data_renames env renames w =
     (if \<not> use_experimental_sync w then (w, Returns)
      else (send_data_renames_loop env renames w, Returns))"

subsection \<open>Applying creations and updates\<close>

text \<open>
  The \<open>except Exception\<close> block of \<open>build_data_create\<close>. \<open>id_proxy\<close> is the local
  variable of that name: \<open>None\<close> while no assignment to it has been executed, which is
  the case when \<open>codec.decode\<close> raised. Formatting it into the third logged message then
  raises \<open>UnboundLocalError\<close> inside the handler, and that exception leaves the function.
  The last-but-one message is \<open>buffer[-200:0]\<close>.
\<close>

definition build_data_create_except ::
  "('r, 'i, 's) collaborators \<Rightarrow> exn \<Rightarrow> 'r option \<Rightarrow> string \<Rightarrow> 's world \<Rightarrow> 's world \<times> outcome"
  where
  "build_data_create_except env e id_proxy buffer w =
     (let w = logger_error ''Exception during build_data_create'' w;
          w = log_lines (format_exc env e) w
      in case id_proxy of
           None \<Rightarrow> (w, Raises (UnboundLocalError ''id_proxy''))
         | Some p \<Rightarrow>
             (let w = logger_error (''During processing of buffer for '' @ str_of env p) w;
                  w = logger_error (py_slice buffer 0 200) w;
                  w = logger_error ''...'' w;
                  w = logger_error (py_slice buffer (- 200) 0) w;
                  w = logger_error ''ignored'' w
              in (w, Returns)))"

text \<open>
  The \<open>try\<close> statement of \<open>build_data_create\<close>: the world after it, the value of
  \<open>rename_changeset\<close> after it (initialised to \<open>None\<close> before it), and how it ended.
\<close>

definition build_data_create_try ::
  "('r, 'i, 's) collaborators \<Rightarrow> string \<Rightarrow> 's world
     \<Rightarrow> 's world \<times> RenameChangeset option \<times> outcome" where
  "build_data_create_try env buffer w =
     (case codec_decode env buffer of
        Inl e \<Rightarrow>
          (case build_data_create_except env e None buffer w of (w, out) \<Rightarrow> (w, None, out))
      | Inr id_proxy \<Rightarrow>
          (let w = logger_info (''build_data_create: '' @ str_of env id_proxy) w;
               w = set_dirty w
           in case create_datablock env id_proxy (bpy_data_proxy w) of
                (store, Inl e) \<Rightarrow>
                  (case build_data_create_except env e (Some id_proxy) buffer
                          (w\<lparr>bpy_data_proxy := store\<rparr>) of
                     (w, out) \<Rightarrow> (w, None, out))
              | (store, Inr (_, rename_changeset)) \<Rightarrow>
                  (w\<lparr>bpy_data_proxy := store\<rparr>, rename_changeset, Returns)))"

text \<open>\<open>if rename_changeset:\<close> is false for \<open>None\<close> and for the empty list.\<close>

fun truthy :: "RenameChangeset option \<Rightarrow> bool" where
  "truthy None = False"
| "truthy (Some []) = False"
| "truthy (Some (_ # _)) = True"

definition build_data_create ::
  "('r, 'i, 's) collaborators \<Rightarrow> bytes \<Rightarrow> 's world \<Rightarrow> 's world \<times> outcome" where
  "build_data_create env buffer w =
     (if \<not> use_experimental_sync w then (w, Returns)
      else
        (let (buffer, _) = decode_string env buffer 0
         in case build_data_create_try env buffer w of
              (w, _, Raises e) \<Rightarrow> (w, Raises e)
            | (w, rename_changeset, Returns) \<Rightarrow>
                (if truthy rename_changeset
                 then send_data_renames env (the rename_changeset) w
                 else (w, Returns))))"

text \<open>The \<open>except Exception\<close> block of \<open>build_data_update\<close>; \<open>delta\<close> as \<open>id_proxy\<close> above.\<close>

definition build_data_update_except ::
  "('r, 'i, 's) collaborators \<Rightarrow> exn \<Rightarrow> 'r option \<Rightarrow> string \<Rightarrow> 's world \<Rightarrow> 's world \<times> outcome"
  where
  "build_data_update_except env e delta buffer w =
     (let w = logger_error ''Exception during build_data_update'' w;
          w = log_lines (format_exc env e) w
      in case delta of
           None \<Rightarrow> (w, Raises (UnboundLocalError ''delta''))
         | Some d \<Rightarrow>
             (let w = logger_error (''During processing of buffer for '' @ str_of env d) w;
                  w = logger_error (py_slice buffer 0 200) w;
                  w = logger_error ''...'' w;
                  w = logger_error (py_slice buffer (- 200) 0) w;
                  w = logger_error ''ignored'' w
              in (w, Returns)))"

definition build_data_update ::
  "('r, 'i, 's) collaborators \<Rightarrow> bytes \<Rightarrow> 's world \<Rightarrow> 's world \<times> outcome" where
  "build_data_update env buffer w =
     (if \<not> use_experimental_sync w then (w, Returns)
      else
        (let (buffer, _) = decode_string env buffer 0
         in case codec_decode env buffer of
              Inl e \<Rightarrow> build_data_update_except env e None buffer w
            | Inr delta \<Rightarrow>
                (let w = logger_info (''build_data_update: '' @ str_of env delta) w;
                     w = set_dirty w
                 in case update_datablock env delta (bpy_data_proxy w) of
                      (store, Inl e) \<Rightarrow>
                        build_data_update_except env e (Some delta) buffer
                          (w\<lparr>bpy_data_proxy := store\<rparr>)
                    | (store, Inr _) \<Rightarrow> (w\<lparr>bpy_data_proxy := store\<rparr>, Returns))))"

subsection \<open>Applying removals and renames\<close>

text \<open>Neither function has a \<open>try\<close>: what the store raises leaves the function.\<close>

definition build_data_remove ::
  "('r, 'i, 's) collaborators \<Rightarrow> bytes \<Rightarrow> 's world \<Rightarrow> 's world \<times> outcome" where
  "build_data_remove env buffer w =
     (if \<not> use_experimental_sync w then (w, Returns)
      else
        (let (uuid, index) = decode_string env buffer 0;
             (debug_info, index) = decode_string env buffer index;
             w = logger_info (''build_data_remove: '' @ uuid @ '' ('' @ debug_info @ '')'') w
         in case remove_datablock env uuid (bpy_data_proxy w) of
              (store, Inl e) \<Rightarrow> (w\<lparr>bpy_data_proxy := store\<rparr>, Raises e)
            | (store, Inr _) \<Rightarrow> (set_dirty (w\<lparr>bpy_data_proxy := store\<rparr>), Returns)))"

definition build_data_rename ::
  "('r, 'i, 's) collaborators \<Rightarrow> bytes \<Rightarrow> 's world \<Rightarrow> 's world \<times> outcome" where
  "build_data_rename env buffer w =
     (if \<not> use_experimental_sync w then (w, Returns)
      else
        (let (uuid, index) = decode_string env buffer 0;
             (new_name, index) = decode_string env buffer index;
             (debug_info, index) = decode_string env buffer index;
             w = logger_info
                   (''build_data_rename: '' @ uuid @ '' ('' @ debug_info @ '') into '' @ new_name) w
         in case rename_datablock env uuid new_name (bpy_data_proxy w) of
              (store, Inl e) \<Rightarrow> (w\<lparr>bpy_data_proxy := store\<rparr>, Raises e)
            | (store, Inr _) \<Rightarrow> (set_dirty (w\<lparr>bpy_data_proxy := store\<rparr>), Returns)))"

subsection \<open>Terms of the properties\<close>

text \<open>
  The encodings of those records of a changeset that the Codec encodes, in the order of
  the changeset: the successfully encoded records of a send.
\<close>

primrec encoded_records :: "('r, 'i, 's) collaborators \<Rightarrow> 'r list \<Rightarrow> string list" where
  "encoded_records env [] = []"
| "encoded_records env (r # rs) =
     (case codec_encode env r of
        Inl _ \<Rightarrow> encoded_records env rs
      | Inr e \<Rightarrow> e # encoded_records env rs)"

text \<open>The payloads \<open>send_data_removals\<close> and \<open>send_data_renames\<close> build for one entry.\<close>

definition removal_payload :: "('r, 'i, 's) collaborators \<Rightarrow> string \<times> string \<Rightarrow> bytes" where
  "removal_payload env removal =
     (case removal of (uuid, debug_info) \<Rightarrow>
        encode_string env uuid @ encode_string env debug_info)"

definition rename_payload ::
  "('r, 'i, 's) collaborators \<Rightarrow> string \<times> string \<times> string \<Rightarrow> bytes" where
  "rename_payload env rename =
     (case rename of (uuid, new_name, debug_info) \<Rightarrow>
        encode_string env uuid @ encode_string env new_name @ encode_string env debug_info)"

subsection \<open>An instance of the collaborators\<close>

text \<open>
  The theorems below hold for every choice of collaborators. To run the module on
  concrete inputs this section fixes one choice, within the contracts the spec gives for
  them. A record is a pair of a uuid and a name; the store is the list of the datablocks
  it holds.
\<close>

text \<open>
  Modelled from the spec: \<open>common.encode_string\<close> and \<open>common.decode_string\<close> are
  not part of the module; the spec says a string is framed with its length as a prefix
  and that decoding at an offset returns the string and the offset after it. Here the
  prefix is the length in unary (one \<open>+\<close> per character) closed by \<open>;\<close>.
\<close>

definition ex_encode_string :: "string \<Rightarrow> bytes" where
  "ex_encode_string s = replicate (length s) (CHR ''+'') @ CHR '';'' # s"

definition ex_decode_string :: "bytes \<Rightarrow> nat \<Rightarrow> string \<times> nat" where
  "ex_decode_string buffer index =
     (let string_length = length (takeWhile (\<lambda>c. c = CHR ''+'') (drop index buffer));
          start = index + string_length + 1;
          stop = start + string_length
      in (take string_length (drop start buffer), stop))"

text \<open>
  Modelled from the spec: \<open>Codec.encode\<close> and \<open>Codec.decode\<close> are not part of the
  module; the spec asks that decoding an encoding gives the record back and that both can
  fail. Here a record is written \<open>uuid|name\<close>; a uuid that contains the separator cannot
  be encoded, and a text without separator cannot be decoded.
\<close>

definition ex_codec_encode :: "string \<times> string \<Rightarrow> exn + string" where
  "ex_codec_encode r =
     (case r of (uuid, name) \<Rightarrow>
        if CHR ''|'' \<in> set uuid then Inl (Raised ''EncodeError'')
        else Inr (uuid @ CHR ''|'' # name))"

definition ex_codec_decode :: "string \<Rightarrow> exn + string \<times> string" where
  "ex_codec_decode s =
     (if CHR ''|'' \<in> set s
      then Inr (takeWhile (\<lambda>c. c \<noteq> CHR ''|'') s, tl (dropWhile (\<lambda>c. c \<noteq> CHR ''|'') s))
      else Inl (Raised ''DecodeError''))"

text \<open>
  Modelled from the spec: the store operations are not part of the module; the spec
  gives their signatures, says that creating can return a rename changeset when the name
  collides, and that the store can reject an operation. Here the store rejects a uuid it
  already holds on creation and a uuid it does not hold otherwise; a colliding name gets
  the suffix \<open>.001\<close>.
\<close>

definition ex_create_datablock ::
  "string \<times> string \<Rightarrow> (string \<times> string) list
     \<Rightarrow> (string \<times> string) list \<times> (exn + string \<times> RenameChangeset option)" where
  "ex_create_datablock r store =
     (case r of (uuid, name) \<Rightarrow>
        if uuid \<in> set (map fst store) then (store, Inl (Raised ''ValueError''))
        else if name \<in> set (map snd store)
        then (store @ [(uuid, name @ ''.001'')],
              Inr (name @ ''.001'', Some [(uuid, name @ ''.001'', name)]))
        else (store @ [(uuid, name)], Inr (name, None)))"

definition ex_update_datablock ::
  "string \<times> string \<Rightarrow> (string \<times> string) list \<Rightarrow> (string \<times> string) list \<times> (exn + unit)"
  where
  "ex_update_datablock r store =
     (case r of (uuid, name) \<Rightarrow>
        if uuid \<in> set (map fst store)
        then (map (\<lambda>d. if fst d = uuid then (uuid, name) else d) store, Inr ())
        else (store, Inl (Raised ''KeyError'')))"

definition ex_remove_datablock ::
  "string \<Rightarrow> (string \<times> string) list \<Rightarrow> (string \<times> string) list \<times> (exn + unit)" where
  "ex_remove_datablock uuid store =
     (if uuid \<in> set (map fst store)
      then (filter (\<lambda>d. fst d \<noteq> uuid) store, Inr ())
      else (store, Inl (Raised ''KeyError'')))"

definition ex_rename_datablock ::
  "string \<Rightarrow> string \<Rightarrow> (string \<times> string) list
     \<Rightarrow> (string \<times> string) list \<times> (exn + unit)" where
  "ex_rename_datablock uuid new_name store =
     (if uuid \<in> set (map fst store)
      then (map (\<lambda>d. if fst d = uuid then (uuid, new_name) else d) store, Inr ())
      else (store, Inl (Raised ''KeyError'')))"

definition ex_str_of :: "string \<times> string \<Rightarrow> string" where
  "ex_str_of r = (case r of (uuid, name) \<Rightarrow> name @ ''#'' @ uuid)"

fun ex_format_exc :: "exn \<Rightarrow> string list" where
  "ex_format_exc (Raised msg) = [''Traceback (most recent call last):'', msg]"
| "ex_format_exc (UnboundLocalError v) = [''Traceback (most recent call last):'', v]"

definition ex_env ::
  "(string \<times> string, string, (string \<times> string) list) collaborators" where
  "ex_env =
     \<lparr>codec_encode = ex_codec_encode, codec_decode = ex_codec_decode,
      encode_string = ex_encode_string, decode_string = ex_decode_string,
      create_datablock = ex_create_datablock, update_datablock = ex_update_datablock,
      remove_datablock = ex_remove_datablock, rename_datablock = ex_rename_datablock,
      str_of = ex_str_of, format_exc = ex_format_exc\<rparr>"

text \<open>A peer that holds one datablock, with the switch on and with the switch off.\<close>

definition ex_world :: "(string \<times> string) list world" where
  "ex_world =
     \<lparr>use_experimental_sync = True, client = [], bpy_data_proxy = [(''uuid-1'', ''Cube'')],
      dirty = False, logger = []\<rparr>"

definition ex_world_off :: "(string \<times> string) list world" where
  "ex_world_off = ex_world\<lparr>use_experimental_sync := False\<rparr>"

lemmas world_defs = add_command_def set_dirty_def logger_info_def logger_error_def

lemmas send_defs =
  send_data_creations_def send_data_updates_def send_data_removals_def send_data_renames_def
  send_data_create_def send_data_update_def send_removal_def send_rename_def

section \<open>Properties\<close>

subsection \<open>What the loops do to each field of the world\<close>

lemma log_lines_frame [simp]:
  "use_experimental_sync (log_lines ls w) = use_experimental_sync w"
  "client (log_lines ls w) = client w"
  "bpy_data_proxy (log_lines ls w) = bpy_data_proxy w"
  "dirty (log_lines ls w) = dirty w"
  by (induction ls arbitrary: w) (simp_all add: logger_error_def)

lemma log_lines_logger [simp]: "logger (log_lines ls w) = logger w @ map ERROR ls"
  by (induction ls arbitrary: w) (simp_all add: logger_error_def)

lemma send_data_creations_loop_client:
  "client (send_data_creations_loop env proxies w) =
     client w @ map (\<lambda>e. Command BLENDER_DATA_CREATE (encode_string env e) 0)
                  (encoded_records env proxies)"
  by (induction proxies arbitrary: w)
     (simp_all add: send_data_create_def world_defs split: sum.splits)

lemma send_data_updates_loop_client:
  "client (send_data_updates_loop env updates w) =
     client w @ map (\<lambda>e. Command BLENDER_DATA_UPDATE (encode_string env e) 0)
                  (encoded_records env updates)"
  by (induction updates arbitrary: w)
     (simp_all add: send_data_update_def world_defs split: sum.splits)

lemma send_data_removals_loop_client:
  "client (send_data_removals_loop env removals w) =
     client w @ map (\<lambda>r. Command BLENDER_DATA_REMOVE (removal_payload env r) 0) removals"
  by (induction removals arbitrary: w)
     (simp_all add: send_removal_def removal_payload_def world_defs split: prod.splits)

lemma send_data_renames_loop_client:
  "client (send_data_renames_loop env renames w) =
     client w @ map (\<lambda>r. Command BLENDER_DATA_RENAME (rename_payload env r) 0) renames"
  by (induction renames arbitrary: w)
     (simp_all add: send_rename_def rename_payload_def world_defs split: prod.splits)

lemma send_data_renames_loop_frame [simp]:
  "use_experimental_sync (send_data_renames_loop env renames w) = use_experimental_sync w"
  "bpy_data_proxy (send_data_renames_loop env renames w) = bpy_data_proxy w"
  "dirty (send_data_renames_loop env renames w) = dirty w"
  by (induction renames arbitrary: w)
     (simp_all add: send_rename_def world_defs split: prod.splits)

lemma py_slice_head: "py_slice xs 0 200 = take 200 xs"
  by (simp add: py_slice_def slice_bound_def min_def)

lemma py_slice_tail_empty: "py_slice xs (- 200) 0 = []"
  by (simp add: py_slice_def slice_bound_def)

subsection \<open>The switch\<close>

text \<open>
  C3. With \<open>share_data.use_experimental_sync()\<close> false, each of the eight public
  operations returns at once and leaves the whole world as it was: the store, the dirty
  flag, the client's command queue and the log.
\<close>

theorem gate_disabled_no_op:
  assumes "\<not> use_experimental_sync w"
  shows "send_data_creations env proxies w = (w, Returns)
       \<and> send_data_updates env updates w = (w, Returns)
       \<and> send_data_removals env removals w = (w, Returns)
       \<and> send_data_renames env renames w = (w, Returns)
       \<and> build_data_create env buffer w = (w, Returns)
       \<and> build_data_update env buffer w = (w, Returns)
       \<and> build_data_remove env buffer w = (w, Returns)
       \<and> build_data_rename env buffer w = (w, Returns)"
  using assms
  by (simp add: send_data_creations_def send_data_updates_def send_data_removals_def
      send_data_renames_def build_data_create_def build_data_update_def
      build_data_remove_def build_data_rename_def)

theorem gate_disabled_no_op_witness:
  "\<not> use_experimental_sync ex_world_off
   \<and> send_data_creations ex_env [(''uuid-2'', ''Light'')] ex_world_off = (ex_world_off, Returns)
   \<and> send_data_updates ex_env [(''uuid-1'', ''Cube'')] ex_world_off = (ex_world_off, Returns)
   \<and> send_data_removals ex_env [(''uuid-1'', ''obj A'')] ex_world_off = (ex_world_off, Returns)
   \<and> send_data_renames ex_env [(''uuid-1'', ''Box'', ''Cube'')] ex_world_off
       = (ex_world_off, Returns)
   \<and> build_data_create ex_env (ex_encode_string ''uuid-2|Light'') ex_world_off
       = (ex_world_off, Returns)
   \<and> build_data_update ex_env (ex_encode_string ''uuid-1|Box'') ex_world_off
       = (ex_world_off, Returns)
   \<and> build_data_remove ex_env (ex_encode_string ''uuid-1'' @ ex_encode_string ''obj A'')
         ex_world_off = (ex_world_off, Returns)
   \<and> build_data_rename ex_env
         (ex_encode_string ''uuid-1'' @ ex_encode_string ''Box'' @ ex_encode_string ''Cube'')
         ex_world_off = (ex_world_off, Returns)"
proof -
  have off: "\<not> use_experimental_sync ex_world_off"
    by (simp add: ex_world_off_def ex_world_def)
  show ?thesis
    using off gate_disabled_no_op [OF off, of ex_env] by simp
qed

subsection \<open>Sending\<close>

text \<open>
  C2. With the switch on, \<open>send_data_updates\<close> (and likewise
  \<open>send_data_creations\<close>) returns normally whatever the Codec raises, and appends to
  the client's queue exactly one command per record that the Codec encoded, in the
  changeset's order, each carrying the framed encoding of its record; a record whose
  encoding raises adds no command. In particular, for a changeset of three records whose
  second fails to encode, exactly two UPDATE commands are appended, with the payloads of
  the first and the third record.
\<close>

theorem send_skips_only_records_that_fail_to_encode:
  assumes "use_experimental_sync w"
  shows "snd (send_data_updates env updates w) = Returns
       \<and> client (fst (send_data_updates env updates w)) =
           client w @ map (\<lambda>e. Command BLENDER_DATA_UPDATE (encode_string env e) 0)
                        (encoded_records env updates)
       \<and> snd (send_data_creations env proxies w) = Returns
       \<and> client (fst (send_data_creations env proxies w)) =
           client w @ map (\<lambda>e. Command BLENDER_DATA_CREATE (encode_string env e) 0)
                        (encoded_records env proxies)
       \<and> (codec_encode env r1 = Inr e1 \<and> codec_encode env r2 = Inl x
            \<and> codec_encode env r3 = Inr e3 \<longrightarrow>
          client (fst (send_data_updates env [r1, r2, r3] w)) =
            client w @ [Command BLENDER_DATA_UPDATE (encode_string env e1) 0,
                        Command BLENDER_DATA_UPDATE (encode_string env e3) 0])"
  using assms
  by (simp add: send_data_updates_def send_data_creations_def
      send_data_updates_loop_client send_data_creations_loop_client
      del: send_data_updates_loop.simps send_data_creations_loop.simps)

theorem send_skips_only_records_that_fail_to_encode_witness:
  "use_experimental_sync ex_world
   \<and> codec_encode ex_env (''uuid-1'', ''Box'') = Inr ''uuid-1|Box''
   \<and> codec_encode ex_env (''uu|id'', ''X'') = Inl (Raised ''EncodeError'')
   \<and> codec_encode ex_env (''uuid-3'', ''Lamp'') = Inr ''uuid-3|Lamp''
   \<and> client (fst (send_data_updates ex_env
         [(''uuid-1'', ''Box''), (''uu|id'', ''X''), (''uuid-3'', ''Lamp'')] ex_world)) =
       [Command BLENDER_DATA_UPDATE (ex_encode_string ''uuid-1|Box'') 0,
        Command BLENDER_DATA_UPDATE (ex_encode_string ''uuid-3|Lamp'') 0]"
proof -
  have on: "use_experimental_sync ex_world"
    by (simp add: ex_world_def)
  have enc: "codec_encode ex_env (''uuid-1'', ''Box'') = Inr ''uuid-1|Box''"
    "codec_encode ex_env (''uu|id'', ''X'') = Inl (Raised ''EncodeError'')"
    "codec_encode ex_env (''uuid-3'', ''Lamp'') = Inr ''uuid-3|Lamp''"
    by (simp_all add: ex_env_def ex_codec_encode_def)
  have q: "client ex_world = []" "encode_string ex_env = ex_encode_string"
    by (simp_all add: ex_world_def ex_env_def)
  show ?thesis
    using on enc q
      send_skips_only_records_that_fail_to_encode [OF on, of ex_env _ _
        "(''uuid-1'', ''Box'')" "''uuid-1|Box''" "(''uu|id'', ''X'')" "Raised ''EncodeError''"
        "(''uuid-3'', ''Lamp'')" "''uuid-3|Lamp''"]
    by simp
qed

text \<open>
  C7. With the switch on, for a changeset \<open>[a, b, c]\<close> whose records all encode,
  \<open>send_data_creations\<close> appends exactly three CREATE commands to the client's queue,
  carrying the framed encodings of \<open>a\<close>, \<open>b\<close> and \<open>c\<close> in this order. When
  the framing and the Codec give each encoding back (the way \<open>build_data_create\<close>
  decodes a payload: \<open>decode_string\<close> at offset 0, then \<open>codec.decode\<close>), decoding
  the three payloads in queue order gives \<open>[a, b, c]\<close>.
\<close>

theorem send_data_creations_preserves_order:
  assumes "use_experimental_sync w"
    and "codec_encode env a = Inr ea"
    and "codec_encode env b = Inr eb"
    and "codec_encode env c = Inr ec"
  shows "client (fst (send_data_creations env [a, b, c] w)) =
           client w @ [Command BLENDER_DATA_CREATE (encode_string env ea) 0,
                       Command BLENDER_DATA_CREATE (encode_string env eb) 0,
                       Command BLENDER_DATA_CREATE (encode_string env ec) 0]
       \<and> ((\<forall>e \<in> {ea, eb, ec}. fst (decode_string env (encode_string env e) 0) = e)
            \<and> codec_decode env ea = Inr a \<and> codec_decode env eb = Inr b
            \<and> codec_decode env ec = Inr c \<longrightarrow>
          map (\<lambda>command. codec_decode env (fst (decode_string env (payload command) 0)))
            (drop (length (client w)) (client (fst (send_data_creations env [a, b, c] w))))
          = [Inr a, Inr b, Inr c])"
  using assms
  by (simp add: send_data_creations_def send_data_creations_loop_client
      del: send_data_creations_loop.simps)

theorem send_data_creations_preserves_order_witness:
  "use_experimental_sync ex_world
   \<and> client (fst (send_data_creations ex_env
         [(''uuid-2'', ''Light''), (''uuid-3'', ''Lamp''), (''uuid-4'', ''Cone'')] ex_world)) =
       [Command BLENDER_DATA_CREATE (ex_encode_string ''uuid-2|Light'') 0,
        Command BLENDER_DATA_CREATE (ex_encode_string ''uuid-3|Lamp'') 0,
        Command BLENDER_DATA_CREATE (ex_encode_string ''uuid-4|Cone'') 0]
   \<and> map (\<lambda>command. codec_decode ex_env (fst (decode_string ex_env (payload command) 0)))
       (client (fst (send_data_creations ex_env
         [(''uuid-2'', ''Light''), (''uuid-3'', ''Lamp''), (''uuid-4'', ''Cone'')] ex_world)))
     = [Inr (''uuid-2'', ''Light''), Inr (''uuid-3'', ''Lamp''), Inr (''uuid-4'', ''Cone'')]"
proof -
  have on: "use_experimental_sync ex_world"
    by (simp add: ex_world_def)
  have enc: "codec_encode ex_env (''uuid-2'', ''Light'') = Inr ''uuid-2|Light''"
    "codec_encode ex_env (''uuid-3'', ''Lamp'') = Inr ''uuid-3|Lamp''"
    "codec_encode ex_env (''uuid-4'', ''Cone'') = Inr ''uuid-4|Cone''"
    by (simp_all add: ex_env_def ex_codec_encode_def)
  have dec: "codec_decode ex_env ''uuid-2|Light'' = Inr (''uuid-2'', ''Light'')"
    "codec_decode ex_env ''uuid-3|Lamp'' = Inr (''uuid-3'', ''Lamp'')"
    "codec_decode ex_env ''uuid-4|Cone'' = Inr (''uuid-4'', ''Cone'')"
    by (simp_all add: ex_env_def ex_codec_decode_def)
  have frame: "fst (decode_string ex_env (encode_string ex_env ''uuid-2|Light'') 0)
                 = ''uuid-2|Light''"
    "fst (decode_string ex_env (encode_string ex_env ''uuid-3|Lamp'') 0) = ''uuid-3|Lamp''"
    "fst (decode_string ex_env (encode_string ex_env ''uuid-4|Cone'') 0) = ''uuid-4|Cone''"
    by (simp_all add: ex_env_def ex_encode_string_def ex_decode_string_def)
  have q: "client ex_world = []" "encode_string ex_env = ex_encode_string"
    by (simp_all add: ex_world_def ex_env_def)
  show ?thesis
    using on dec frame q send_data_creations_preserves_order [OF on enc]
    by simp
qed

text \<open>
  C9. Whatever the switch and the input, each of the four \<open>send_data_*\<close> operations
  only appends to the client's queue, and every command it appends has the reserved
  field 0.
\<close>

theorem sent_commands_have_reserved_zero:
  "(\<exists>new. client (fst (send_data_creations env proxies w)) = client w @ new
          \<and> (\<forall>command \<in> set new. reserved command = 0))
   \<and> (\<exists>new. client (fst (send_data_updates env updates w)) = client w @ new
          \<and> (\<forall>command \<in> set new. reserved command = 0))
   \<and> (\<exists>new. client (fst (send_data_removals env removals w)) = client w @ new
          \<and> (\<forall>command \<in> set new. reserved command = 0))
   \<and> (\<exists>new. client (fst (send_data_renames env renames w)) = client w @ new
          \<and> (\<forall>command \<in> set new. reserved command = 0))"
  by (auto simp add: send_data_creations_def send_data_updates_def send_data_removals_def
      send_data_renames_def send_data_creations_loop_client send_data_updates_loop_client
      send_data_removals_loop_client send_data_renames_loop_client)

theorem sent_commands_have_reserved_zero_witness:
  "map reserved (client (fst (send_data_creations ex_env
       [(''uuid-2'', ''Light''), (''uuid-3'', ''Lamp'')] ex_world))) = [0, 0]
   \<and> map reserved (client (fst (send_data_updates ex_env [(''uuid-1'', ''Box'')] ex_world)))
       = [0]
   \<and> map reserved (client (fst (send_data_removals ex_env [(''uuid-1'', ''obj A'')] ex_world)))
       = [0]
   \<and> map reserved (client (fst (send_data_renames ex_env
       [(''uuid-1'', ''Box'', ''Cube'')] ex_world))) = [0]"
proof -
  have len: "length (client (fst (send_data_creations ex_env
        [(''uuid-2'', ''Light''), (''uuid-3'', ''Lamp'')] ex_world))) = 2"
    "length (client (fst (send_data_updates ex_env [(''uuid-1'', ''Box'')] ex_world))) = 1"
    "length (client (fst (send_data_removals ex_env [(''uuid-1'', ''obj A'')] ex_world))) = 1"
    "length (client (fst (send_data_renames ex_env
        [(''uuid-1'', ''Box'', ''Cube'')] ex_world))) = 1"
    by (simp_all add: send_defs world_defs ex_env_def ex_world_def ex_codec_encode_def)
  have q: "client ex_world = []"
    by (simp add: ex_world_def)
  have zeros: "\<And>xs :: Command list. \<forall>command \<in> set xs. reserved command = 0 \<Longrightarrow>
                 map reserved xs = replicate (length xs) 0"
    by (simp add: map_replicate_const [symmetric] cong: map_cong)
  from sent_commands_have_reserved_zero
    [of ex_env "[(''uuid-2'', ''Light''), (''uuid-3'', ''Lamp'')]" ex_world
      "[(''uuid-1'', ''Box'')]" "[(''uuid-1'', ''obj A'')]" "[(''uuid-1'', ''Box'', ''Cube'')]"]
  have "map reserved (client (fst (send_data_creations ex_env
            [(''uuid-2'', ''Light''), (''uuid-3'', ''Lamp'')] ex_world)))
          = replicate (length (client (fst (send_data_creations ex_env
            [(''uuid-2'', ''Light''), (''uuid-3'', ''Lamp'')] ex_world)))) 0"
    and "map reserved (client (fst (send_data_updates ex_env [(''uuid-1'', ''Box'')] ex_world)))
          = replicate (length (client (fst (send_data_updates ex_env
              [(''uuid-1'', ''Box'')] ex_world)))) 0"
    and "map reserved (client (fst (send_data_removals ex_env
            [(''uuid-1'', ''obj A'')] ex_world)))
          = replicate (length (client (fst (send_data_removals ex_env
              [(''uuid-1'', ''obj A'')] ex_world)))) 0"
    and "map reserved (client (fst (send_data_renames ex_env
            [(''uuid-1'', ''Box'', ''Cube'')] ex_world)))
          = replicate (length (client (fst (send_data_renames ex_env
              [(''uuid-1'', ''Box'', ''Cube'')] ex_world)))) 0"
    using q by (auto intro!: zeros)
  then show ?thesis
    by (simp add: len numeral_2_eq_2)
qed

subsection \<open>The paths through the appliers\<close>

lemma build_data_create_except_bound:
  "build_data_create_except env e (Some p) buffer w =
     (w\<lparr>logger := logger w @ ERROR ''Exception during build_data_create''
                      # map ERROR (format_exc env e)
                      @ [ERROR (''During processing of buffer for '' @ str_of env p),
                         ERROR (py_slice buffer 0 200), ERROR ''...'',
                         ERROR (py_slice buffer (- 200) 0), ERROR ''ignored'']\<rparr>,
      Returns)"
  by (simp add: build_data_create_except_def Let_def logger_error_def)

lemma build_data_update_except_bound:
  "build_data_update_except env e (Some d) buffer w =
     (w\<lparr>logger := logger w @ ERROR ''Exception during build_data_update''
                      # map ERROR (format_exc env e)
                      @ [ERROR (''During processing of buffer for '' @ str_of env d),
                         ERROR (py_slice buffer 0 200), ERROR ''...'',
                         ERROR (py_slice buffer (- 200) 0), ERROR ''ignored'']\<rparr>,
      Returns)"
  by (simp add: build_data_update_except_def Let_def logger_error_def)

lemma build_data_create_decode_raises:
  assumes "use_experimental_sync w"
    and "codec_decode env (fst (decode_string env buffer 0)) = Inl e"
  shows "build_data_create env buffer w =
           (log_lines (format_exc env e)
              (logger_error ''Exception during build_data_create'' w),
            Raises (UnboundLocalError ''id_proxy''))"
  using assms
  by (simp add: build_data_create_def build_data_create_try_def build_data_create_except_def
      split_def Let_def)

lemma build_data_update_decode_raises:
  assumes "use_experimental_sync w"
    and "codec_decode env (fst (decode_string env buffer 0)) = Inl e"
  shows "build_data_update env buffer w =
           (log_lines (format_exc env e)
              (logger_error ''Exception during build_data_update'' w),
            Raises (UnboundLocalError ''delta''))"
  using assms
  by (simp add: build_data_update_def build_data_update_except_def split_def Let_def)

lemma build_data_create_store_raises:
  assumes "use_experimental_sync w"
    and "codec_decode env (fst (decode_string env buffer 0)) = Inr p"
    and "create_datablock env p (bpy_data_proxy w) = (store, Inl e)"
  shows "build_data_create env buffer w =
           build_data_create_except env e (Some p) (fst (decode_string env buffer 0))
             (set_dirty (logger_info (''build_data_create: '' @ str_of env p) w)
                \<lparr>bpy_data_proxy := store\<rparr>)"
  using assms
  by (simp add: build_data_create_def build_data_create_try_def
      build_data_create_except_bound split_def Let_def world_defs)

lemma build_data_update_store_raises:
  assumes "use_experimental_sync w"
    and "codec_decode env (fst (decode_string env buffer 0)) = Inr d"
    and "update_datablock env d (bpy_data_proxy w) = (store, Inl e)"
  shows "build_data_update env buffer w =
           build_data_update_except env e (Some d) (fst (decode_string env buffer 0))
             (set_dirty (logger_info (''build_data_update: '' @ str_of env d) w)
                \<lparr>bpy_data_proxy := store\<rparr>)"
  using assms
  by (simp add: build_data_update_def build_data_update_except_bound split_def Let_def
      world_defs)

lemma build_data_create_store_returns:
  assumes "use_experimental_sync w"
    and "codec_decode env (fst (decode_string env buffer 0)) = Inr p"
    and "create_datablock env p (bpy_data_proxy w) = (store, Inr (datablock, rename_changeset))"
  shows "build_data_create env buffer w =
           (if truthy rename_changeset
            then send_data_renames env (the rename_changeset)
                   (set_dirty (logger_info (''build_data_create: '' @ str_of env p) w)
                      \<lparr>bpy_data_proxy := store\<rparr>)
            else (set_dirty (logger_info (''build_data_create: '' @ str_of env p) w)
                    \<lparr>bpy_data_proxy := store\<rparr>, Returns))"
  using assms
  by (simp add: build_data_create_def build_data_create_try_def split_def Let_def world_defs)

lemma build_data_update_store_returns:
  assumes "use_experimental_sync w"
    and "codec_decode env (fst (decode_string env buffer 0)) = Inr d"
    and "update_datablock env d (bpy_data_proxy w) = (store, Inr u)"
  shows "build_data_update env buffer w =
           (set_dirty (logger_info (''build_data_update: '' @ str_of env d) w)
              \<lparr>bpy_data_proxy := store\<rparr>, Returns)"
  using assms
  by (simp add: build_data_update_def split_def Let_def world_defs)

lemma build_data_remove_paths:
  assumes "use_experimental_sync w"
    and "remove_datablock env (fst (decode_string env buffer 0)) (bpy_data_proxy w) = (store, r)"
  shows "build_data_remove env buffer w =
           (let uuid = fst (decode_string env buffer 0);
                debug_info = fst (decode_string env buffer (snd (decode_string env buffer 0)));
                w' = logger_info
                       (''build_data_remove: '' @ uuid @ '' ('' @ debug_info @ '')'') w
                       \<lparr>bpy_data_proxy := store\<rparr>
            in case r of Inl e \<Rightarrow> (w', Raises e) | Inr _ \<Rightarrow> (set_dirty w', Returns))"
  using assms
  by (simp add: build_data_remove_def split_def Let_def world_defs split: sum.splits)

lemma build_data_rename_paths:
  assumes "use_experimental_sync w"
    and "rename_datablock env (fst (decode_string env buffer 0))
           (fst (decode_string env buffer (snd (decode_string env buffer 0))))
           (bpy_data_proxy w) = (store, r)"
  shows "build_data_rename env buffer w =
           (let uuid = fst (decode_string env buffer 0);
                index = snd (decode_string env buffer 0);
                new_name = fst (decode_string env buffer index);
                index = snd (decode_string env buffer index);
                debug_info = fst (decode_string env buffer index);
                w' = logger_info
                       (''build_data_rename: '' @ uuid @ '' ('' @ debug_info @ '') into ''
                          @ new_name) w
                       \<lparr>bpy_data_proxy := store\<rparr>
            in case r of Inl e \<Rightarrow> (w', Raises e) | Inr _ \<Rightarrow> (set_dirty w', Returns))"
  using assms
  by (simp add: build_data_rename_def split_def Let_def world_defs split: sum.splits)

subsection \<open>Applying\<close>

text \<open>
  C5. With the switch on, when the payload decodes and \<open>create_datablock\<close> returns a
  non-empty rename changeset, \<open>build_data_create\<close> returns normally and what it
  appends to the client's queue is exactly one RENAME command per entry of that changeset,
  in order, each carrying the framed uuid, new name and debug text of its entry as the
  store returned them; it appends no CREATE and no UPDATE command.
\<close>

theorem create_collision_forwards_renames:
  assumes "use_experimental_sync w"
    and "codec_decode env (fst (decode_string env buffer 0)) = Inr id_proxy"
    and "create_datablock env id_proxy (bpy_data_proxy w) = (store, Inr (datablock, Some renames))"
    and "renames \<noteq> []"
  shows "snd (build_data_create env buffer w) = Returns
       \<and> client (fst (build_data_create env buffer w)) =
           client w @ map (\<lambda>(uuid, new_name, debug_info).
                             Command BLENDER_DATA_RENAME
                               (encode_string env uuid @ encode_string env new_name
                                  @ encode_string env debug_info) 0) renames"
proof -
  obtain r rs where renames: "renames = r # rs"
    using assms(4) by (cases renames) auto
  have payload: "(\<lambda>r. Command BLENDER_DATA_RENAME (rename_payload env r) 0) =
                 (\<lambda>(uuid, new_name, debug_info).
                    Command BLENDER_DATA_RENAME
                      (encode_string env uuid @ encode_string env new_name
                         @ encode_string env debug_info) 0)"
    by (auto simp add: rename_payload_def fun_eq_iff)
  have "build_data_create env buffer w =
          send_data_renames env renames
            (set_dirty (logger_info (''build_data_create: '' @ str_of env id_proxy) w)
               \<lparr>bpy_data_proxy := store\<rparr>)"
    using build_data_create_store_returns [OF assms(1-3)] renames
    by simp
  then show ?thesis
    using assms(1) payload
    by (simp add: send_data_renames_def send_data_renames_loop_client world_defs
        del: send_data_renames_loop.simps)
qed

theorem create_collision_forwards_renames_witness:
  "use_experimental_sync ex_world
   \<and> create_datablock ex_env (''uuid-2'', ''Cube'') (bpy_data_proxy ex_world) =
       ([(''uuid-1'', ''Cube''), (''uuid-2'', ''Cube.001'')],
        Inr (''Cube.001'', Some [(''uuid-2'', ''Cube.001'', ''Cube'')]))
   \<and> snd (build_data_create ex_env (ex_encode_string ''uuid-2|Cube'') ex_world) = Returns
   \<and> client (fst (build_data_create ex_env (ex_encode_string ''uuid-2|Cube'') ex_world)) =
       [Command BLENDER_DATA_RENAME
          (ex_encode_string ''uuid-2'' @ ex_encode_string ''Cube.001''
             @ ex_encode_string ''Cube'') 0]"
proof -
  have on: "use_experimental_sync ex_world"
    by (simp add: ex_world_def)
  have dec: "codec_decode ex_env (fst (decode_string ex_env (ex_encode_string ''uuid-2|Cube'') 0))
               = Inr (''uuid-2'', ''Cube'')"
    by (simp add: ex_env_def ex_encode_string_def ex_decode_string_def ex_codec_decode_def)
  have created: "create_datablock ex_env (''uuid-2'', ''Cube'') (bpy_data_proxy ex_world) =
                   ([(''uuid-1'', ''Cube''), (''uuid-2'', ''Cube.001'')],
                    Inr (''Cube.001'', Some [(''uuid-2'', ''Cube.001'', ''Cube'')]))"
    by (simp add: ex_env_def ex_world_def ex_create_datablock_def)
  have ne: "[(''uuid-2'', ''Cube.001'', ''Cube'')] \<noteq> []"
    by simp
  have q: "client ex_world = []" "encode_string ex_env = ex_encode_string"
    by (simp_all add: ex_world_def ex_env_def)
  show ?thesis
    using on created q create_collision_forwards_renames [OF on dec created ne]
    by simp
qed

text \<open>
  C6. With the switch on at both peers and a framing that gives back the two strings of
  the payload, \<open>send_data_removals\<close> of the single entry \<open>(uuid, debug_info)\<close>
  appends one REMOVE command, and \<open>build_data_remove\<close> on its payload recovers both
  strings (it logs them) and applies \<open>remove_datablock\<close> once, to that uuid: the store
  it leaves is the one that single call returns.
\<close>

theorem removal_round_trip:
  assumes "use_experimental_sync sender"
    and "use_experimental_sync receiver"
    and "decode_string env (encode_string env uuid @ encode_string env debug_info) 0
           = (uuid, index)"
    and "decode_string env (encode_string env uuid @ encode_string env debug_info) index
           = (debug_info, index')"
  shows "client (fst (send_data_removals env [(uuid, debug_info)] sender)) =
           client sender @ [Command BLENDER_DATA_REMOVE
                              (encode_string env uuid @ encode_string env debug_info) 0]
       \<and> logger (fst (build_data_remove env
                        (encode_string env uuid @ encode_string env debug_info) receiver)) =
           logger receiver @ [INFO (''build_data_remove: '' @ uuid @ '' ('' @ debug_info @ '')'')]
       \<and> bpy_data_proxy (fst (build_data_remove env
                        (encode_string env uuid @ encode_string env debug_info) receiver)) =
           fst (remove_datablock env uuid (bpy_data_proxy receiver))"
proof -
  obtain store r where removed: "remove_datablock env uuid (bpy_data_proxy receiver) = (store, r)"
    by (cases "remove_datablock env uuid (bpy_data_proxy receiver)")
  have "remove_datablock env
          (fst (decode_string env (encode_string env uuid @ encode_string env debug_info) 0))
          (bpy_data_proxy receiver) = (store, r)"
    using assms(3) removed by simp
  from build_data_remove_paths [OF assms(2) this] assms(3,4) removed
  have "logger (fst (build_data_remove env
                  (encode_string env uuid @ encode_string env debug_info) receiver)) =
          logger receiver @ [INFO (''build_data_remove: '' @ uuid @ '' ('' @ debug_info @ '')'')]"
    and "bpy_data_proxy (fst (build_data_remove env
                  (encode_string env uuid @ encode_string env debug_info) receiver)) =
          fst (remove_datablock env uuid (bpy_data_proxy receiver))"
    by (simp_all add: Let_def world_defs split: sum.splits)
  moreover have "client (fst (send_data_removals env [(uuid, debug_info)] sender)) =
                   client sender @ [Command BLENDER_DATA_REMOVE
                     (encode_string env uuid @ encode_string env debug_info) 0]"
    using assms(1) by (simp add: send_data_removals_def send_removal_def world_defs)
  ultimately show ?thesis
    by simp
qed

theorem removal_round_trip_witness:
  "use_experimental_sync ex_world
   \<and> map payload (client (fst (send_data_removals ex_env [(''uuid-1'', ''obj A'')] ex_world)))
       = [ex_encode_string ''uuid-1'' @ ex_encode_string ''obj A'']
   \<and> decode_string ex_env (ex_encode_string ''uuid-1'' @ ex_encode_string ''obj A'') 0
       = (''uuid-1'', 13)
   \<and> decode_string ex_env (ex_encode_string ''uuid-1'' @ ex_encode_string ''obj A'') 13
       = (''obj A'', 24)
   \<and> logger (fst (build_data_remove ex_env
         (ex_encode_string ''uuid-1'' @ ex_encode_string ''obj A'') ex_world))
       = [INFO ''build_data_remove: uuid-1 (obj A)'']
   \<and> bpy_data_proxy ex_world = [(''uuid-1'', ''Cube'')]
   \<and> bpy_data_proxy (fst (build_data_remove ex_env
         (ex_encode_string ''uuid-1'' @ ex_encode_string ''obj A'') ex_world)) = []"
proof -
  have on: "use_experimental_sync ex_world"
    by (simp add: ex_world_def)
  have d1: "decode_string ex_env (encode_string ex_env ''uuid-1'' @ encode_string ex_env ''obj A'') 0
              = (''uuid-1'', 13)"
    by (simp add: ex_env_def ex_encode_string_def ex_decode_string_def)
  have d2: "decode_string ex_env (encode_string ex_env ''uuid-1'' @ encode_string ex_env ''obj A'')
              13 = (''obj A'', 24)"
    by (simp add: ex_env_def ex_encode_string_def ex_decode_string_def)
  have q: "client ex_world = []" "logger ex_world = []"
    "bpy_data_proxy ex_world = [(''uuid-1'', ''Cube'')]"
    "encode_string ex_env = ex_encode_string"
    "remove_datablock ex_env = ex_remove_datablock"
    by (simp_all add: ex_world_def ex_env_def)
  show ?thesis
    using on d1 d2 q removal_round_trip [OF on on d1 d2]
    by (simp add: ex_remove_datablock_def)
qed

text \<open>
  C10. With the switch on, once the payload decodes, \<open>build_data_create\<close> and
  \<open>build_data_update\<close> leave the dirty flag set whatever the store operation does:
  \<open>set_dirty\<close> is called before it. In particular, when \<open>create_datablock\<close>
  (\<open>update_datablock\<close>) raises, the handler returns normally and the flag is set,
  although nothing was applied.
\<close>

theorem dirty_marked_before_store_operation:
  assumes "use_experimental_sync w"
    and "codec_decode env (fst (decode_string env buffer 0)) = Inr p"
  shows "dirty (fst (build_data_create env buffer w))
       \<and> dirty (fst (build_data_update env buffer w))
       \<and> (snd (create_datablock env p (bpy_data_proxy w)) = Inl e \<longrightarrow>
            snd (build_data_create env buffer w) = Returns
            \<and> dirty (fst (build_data_create env buffer w)))
       \<and> (snd (update_datablock env p (bpy_data_proxy w)) = Inl e \<longrightarrow>
            snd (build_data_update env buffer w) = Returns
            \<and> dirty (fst (build_data_update env buffer w)))"
proof -
  obtain store r where created: "create_datablock env p (bpy_data_proxy w) = (store, r)"
    by (cases "create_datablock env p (bpy_data_proxy w)")
  obtain store' r' where updated: "update_datablock env p (bpy_data_proxy w) = (store', r')"
    by (cases "update_datablock env p (bpy_data_proxy w)")
  have create: "dirty (fst (build_data_create env buffer w))"
  proof (cases r)
    case (Inl x)
    with build_data_create_store_raises [OF assms, of store x] created show ?thesis
      by (simp add: build_data_create_except_bound world_defs)
  next
    case (Inr y)
    then obtain datablock rename_changeset where "r = Inr (datablock, rename_changeset)"
      by (cases y) simp
    with build_data_create_store_returns [OF assms, of store datablock rename_changeset] created
    show ?thesis
      using assms(1) by (simp add: send_data_renames_def world_defs)
  qed
  have update: "dirty (fst (build_data_update env buffer w))"
  proof (cases r')
    case (Inl x)
    with build_data_update_store_raises [OF assms, of store' x] updated show ?thesis
      by (simp add: build_data_update_except_bound world_defs)
  next
    case (Inr y)
    with build_data_update_store_returns [OF assms, of store' y] updated show ?thesis
      by (simp add: world_defs)
  qed
  have create_raises: "snd (build_data_create env buffer w) = Returns"
    if "snd (create_datablock env p (bpy_data_proxy w)) = Inl e"
    using that created build_data_create_store_raises [OF assms, of store e]
    by (simp add: build_data_create_except_bound)
  have update_raises: "snd (build_data_update env buffer w) = Returns"
    if "snd (update_datablock env p (bpy_data_proxy w)) = Inl e"
    using that updated build_data_update_store_raises [OF assms, of store' e]
    by (simp add: build_data_update_except_bound)
  show ?thesis
    using create update create_raises update_raises by blast
qed

theorem dirty_marked_before_store_operation_witness:
  "use_experimental_sync ex_world \<and> \<not> dirty ex_world
   \<and> snd (create_datablock ex_env (''uuid-1'', ''Cube'') (bpy_data_proxy ex_world))
       = Inl (Raised ''ValueError'')
   \<and> build_data_create ex_env (ex_encode_string ''uuid-1|Cube'') ex_world
       = (fst (build_data_create ex_env (ex_encode_string ''uuid-1|Cube'') ex_world), Returns)
   \<and> dirty (fst (build_data_create ex_env (ex_encode_string ''uuid-1|Cube'') ex_world))
   \<and> bpy_data_proxy (fst (build_data_create ex_env (ex_encode_string ''uuid-1|Cube'') ex_world))
       = bpy_data_proxy ex_world"
proof -
  have on: "use_experimental_sync ex_world" and clean: "\<not> dirty ex_world"
    by (simp_all add: ex_world_def)
  have dec: "codec_decode ex_env (fst (decode_string ex_env (ex_encode_string ''uuid-1|Cube'') 0))
               = Inr (''uuid-1'', ''Cube'')"
    by (simp add: ex_env_def ex_encode_string_def ex_decode_string_def ex_codec_decode_def)
  have raises: "snd (create_datablock ex_env (''uuid-1'', ''Cube'') (bpy_data_proxy ex_world))
                  = Inl (Raised ''ValueError'')"
    by (simp add: ex_env_def ex_world_def ex_create_datablock_def)
  have store: "bpy_data_proxy
                 (fst (build_data_create ex_env (ex_encode_string ''uuid-1|Cube'') ex_world))
               = bpy_data_proxy ex_world"
    using build_data_create_store_raises
            [OF on dec, of "[(''uuid-1'', ''Cube'')]" "Raised ''ValueError''"]
    by (simp add: build_data_create_except_bound world_defs ex_env_def ex_world_def
        ex_create_datablock_def)
  show ?thesis
    using on clean raises store
      dirty_marked_before_store_operation [OF on dec, of "Raised ''ValueError''"]
    by (simp add: prod_eq_iff)
qed

subsection \<open>Containment of errors\<close>

text \<open>
  C4, as the claim states it, fails: \<open>build_data_remove\<close> and \<open>build_data_rename\<close>
  have no \<open>try\<close>, so an exception of the store leaves them. Here the store holds no
  datablock \<open>uuid-9\<close> and rejects its removal and its renaming.
\<close>

theorem store_failure_leaves_remove_and_rename:
  "snd (remove_datablock ex_env ''uuid-9'' (bpy_data_proxy ex_world)) = Inl (Raised ''KeyError'')
   \<and> snd (build_data_remove ex_env
         (ex_encode_string ''uuid-9'' @ ex_encode_string ''obj A'') ex_world)
       = Raises (Raised ''KeyError'')
   \<and> snd (rename_datablock ex_env ''uuid-9'' ''Box'' (bpy_data_proxy ex_world))
       = Inl (Raised ''KeyError'')
   \<and> snd (build_data_rename ex_env
         (ex_encode_string ''uuid-9'' @ ex_encode_string ''Box'' @ ex_encode_string ''obj A'')
         ex_world)
       = Raises (Raised ''KeyError'')"
  by (simp add: build_data_remove_def build_data_rename_def world_defs ex_env_def ex_world_def
      ex_encode_string_def ex_decode_string_def ex_remove_datablock_def ex_rename_datablock_def)

text \<open>
  C4, amended. With the switch on, an exception of the store after a successful decode is
  contained by \<open>build_data_create\<close> and \<open>build_data_update\<close>: they catch it and
  return normally. \<open>build_data_remove\<close> and \<open>build_data_rename\<close> do not contain
  it: when \<open>remove_datablock\<close> or \<open>rename_datablock\<close> raises, that exception leaves
  the handler.
\<close>

theorem store_failure_containment:
  assumes "use_experimental_sync w"
  shows "(codec_decode env (fst (decode_string env buffer 0)) = Inr p
            \<and> snd (create_datablock env p (bpy_data_proxy w)) = Inl e \<longrightarrow>
          snd (build_data_create env buffer w) = Returns)
       \<and> (codec_decode env (fst (decode_string env buffer 0)) = Inr p
            \<and> snd (update_datablock env p (bpy_data_proxy w)) = Inl e \<longrightarrow>
          snd (build_data_update env buffer w) = Returns)
       \<and> (snd (remove_datablock env (fst (decode_string env buffer 0)) (bpy_data_proxy w))
            = Inl e \<longrightarrow>
          snd (build_data_remove env buffer w) = Raises e)
       \<and> (snd (rename_datablock env (fst (decode_string env buffer 0))
                 (fst (decode_string env buffer (snd (decode_string env buffer 0))))
                 (bpy_data_proxy w)) = Inl e \<longrightarrow>
          snd (build_data_rename env buffer w) = Raises e)"
proof -
  have create: "snd (build_data_create env buffer w) = Returns"
    if dec: "codec_decode env (fst (decode_string env buffer 0)) = Inr p"
      and raised: "snd (create_datablock env p (bpy_data_proxy w)) = Inl e"
  proof -
    obtain store where "create_datablock env p (bpy_data_proxy w) = (store, Inl e)"
      using raised by (cases "create_datablock env p (bpy_data_proxy w)") simp
    from build_data_create_store_raises [OF assms dec this] show ?thesis
      by (simp add: build_data_create_except_bound)
  qed
  have update: "snd (build_data_update env buffer w) = Returns"
    if dec: "codec_decode env (fst (decode_string env buffer 0)) = Inr p"
      and raised: "snd (update_datablock env p (bpy_data_proxy w)) = Inl e"
  proof -
    obtain store where "update_datablock env p (bpy_data_proxy w) = (store, Inl e)"
      using raised by (cases "update_datablock env p (bpy_data_proxy w)") simp
    from build_data_update_store_raises [OF assms dec this] show ?thesis
      by (simp add: build_data_update_except_bound)
  qed
  have remove: "snd (build_data_remove env buffer w) = Raises e"
    if raised: "snd (remove_datablock env (fst (decode_string env buffer 0)) (bpy_data_proxy w)) = Inl e"
  proof -
    obtain store where
      "remove_datablock env (fst (decode_string env buffer 0)) (bpy_data_proxy w) = (store, Inl e)"
      using raised
      by (cases "remove_datablock env (fst (decode_string env buffer 0)) (bpy_data_proxy w)") simp
    from build_data_remove_paths [OF assms this] show ?thesis
      by (simp add: Let_def)
  qed
  have rename: "snd (build_data_rename env buffer w) = Raises e"
    if raised: "snd (rename_datablock env (fst (decode_string env buffer 0))
              (fst (decode_string env buffer (snd (decode_string env buffer 0))))
              (bpy_data_proxy w)) = Inl e"
  proof -
    obtain store where
      "rename_datablock env (fst (decode_string env buffer 0))
         (fst (decode_string env buffer (snd (decode_string env buffer 0))))
         (bpy_data_proxy w) = (store, Inl e)"
      using raised
      by (cases "rename_datablock env (fst (decode_string env buffer 0))
                   (fst (decode_string env buffer (snd (decode_string env buffer 0))))
                   (bpy_data_proxy w)") simp
    from build_data_rename_paths [OF assms this] show ?thesis
      by (simp add: Let_def)
  qed
  show ?thesis
    using create update remove rename by blast
qed

theorem store_failure_containment_witness:
  "use_experimental_sync ex_world
   \<and> snd (create_datablock ex_env (''uuid-1'', ''Cube'') (bpy_data_proxy ex_world))
       = Inl (Raised ''ValueError'')
   \<and> snd (build_data_create ex_env (ex_encode_string ''uuid-1|Cube'') ex_world) = Returns
   \<and> snd (update_datablock ex_env (''uuid-7'', ''Cube'') (bpy_data_proxy ex_world))
       = Inl (Raised ''KeyError'')
   \<and> snd (build_data_update ex_env (ex_encode_string ''uuid-7|Cube'') ex_world) = Returns
   \<and> snd (remove_datablock ex_env ''uuid-7'' (bpy_data_proxy ex_world))
       = Inl (Raised ''KeyError'')
   \<and> snd (build_data_remove ex_env
         (ex_encode_string ''uuid-7'' @ ex_encode_string ''obj A'') ex_world)
       = Raises (Raised ''KeyError'')
   \<and> snd (rename_datablock ex_env ''uuid-7'' ''Box'' (bpy_data_proxy ex_world))
       = Inl (Raised ''KeyError'')
   \<and> snd (build_data_rename ex_env
         (ex_encode_string ''uuid-7'' @ ex_encode_string ''Box'' @ ex_encode_string ''obj A'')
         ex_world)
       = Raises (Raised ''KeyError'')"
proof -
  have on: "use_experimental_sync ex_world"
    by (simp add: ex_world_def)
  have dec: "codec_decode ex_env (fst (decode_string ex_env (ex_encode_string ''uuid-1|Cube'') 0))
               = Inr (''uuid-1'', ''Cube'')"
    "codec_decode ex_env (fst (decode_string ex_env (ex_encode_string ''uuid-7|Cube'') 0))
               = Inr (''uuid-7'', ''Cube'')"
    by (simp_all add: ex_env_def ex_encode_string_def ex_decode_string_def ex_codec_decode_def)
  have store: "snd (create_datablock ex_env (''uuid-1'', ''Cube'') (bpy_data_proxy ex_world))
                 = Inl (Raised ''ValueError'')"
    "snd (update_datablock ex_env (''uuid-7'', ''Cube'') (bpy_data_proxy ex_world))
                 = Inl (Raised ''KeyError'')"
    "snd (remove_datablock ex_env ''uuid-7'' (bpy_data_proxy ex_world))
                 = Inl (Raised ''KeyError'')"
    "snd (rename_datablock ex_env ''uuid-7'' ''Box'' (bpy_data_proxy ex_world))
                 = Inl (Raised ''KeyError'')"
    by (simp_all add: ex_env_def ex_world_def ex_create_datablock_def ex_update_datablock_def
        ex_remove_datablock_def ex_rename_datablock_def)
  have frame: "decode_string ex_env (ex_encode_string ''uuid-7'' @ ex_encode_string ''obj A'') 0
                 = (''uuid-7'', 13)"
    "decode_string ex_env
       (ex_encode_string ''uuid-7'' @ ex_encode_string ''Box'' @ ex_encode_string ''obj A'') 0
     = (''uuid-7'', 13)"
    "decode_string ex_env
       (ex_encode_string ''uuid-7'' @ ex_encode_string ''Box'' @ ex_encode_string ''obj A'') 13
     = (''Box'', 20)"
    by (simp_all add: ex_env_def ex_encode_string_def ex_decode_string_def)
  have "snd (build_data_create ex_env (ex_encode_string ''uuid-1|Cube'') ex_world) = Returns"
    using store_failure_containment
            [OF on, of ex_env "ex_encode_string ''uuid-1|Cube''" "(''uuid-1'', ''Cube'')"
               "Raised ''ValueError''"]
          dec(1) store(1)
    by simp
  moreover
  have "snd (build_data_update ex_env (ex_encode_string ''uuid-7|Cube'') ex_world) = Returns"
    using store_failure_containment
            [OF on, of ex_env "ex_encode_string ''uuid-7|Cube''" "(''uuid-7'', ''Cube'')"
               "Raised ''KeyError''"]
          dec(2) store(2)
    by simp
  moreover
  have "snd (build_data_remove ex_env
          (ex_encode_string ''uuid-7'' @ ex_encode_string ''obj A'') ex_world)
        = Raises (Raised ''KeyError'')"
    using store_failure_containment
            [OF on, of ex_env "ex_encode_string ''uuid-7'' @ ex_encode_string ''obj A''" _
               "Raised ''KeyError''"]
          frame(1) store(3)
    by simp
  moreover
  have "snd (build_data_rename ex_env
          (ex_encode_string ''uuid-7'' @ ex_encode_string ''Box'' @ ex_encode_string ''obj A'')
          ex_world)
        = Raises (Raised ''KeyError'')"
    using store_failure_containment
            [OF on, of ex_env
               "ex_encode_string ''uuid-7'' @ ex_encode_string ''Box'' @ ex_encode_string ''obj A''"
               _ "Raised ''KeyError''"]
          frame(2,3) store(4)
    by simp
  ultimately show ?thesis
    using on store by simp
qed

text \<open>
  C1, where the code departs from it. With the switch on, when \<open>codec.decode\<close> raises,
  the \<open>except\<close> block of \<open>build_data_update\<close> logs the exception and then formats
  the local variable \<open>delta\<close>, which was never assigned: \<open>UnboundLocalError\<close> is
  raised inside the handler and leaves the function. \<open>build_data_create\<close> does the same
  with \<open>id_proxy\<close>. An exception of the store, raised after the assignment, is
  contained.
\<close>

theorem decode_failure_leaves_handler:
  assumes "use_experimental_sync w"
    and "codec_decode env (fst (decode_string env buffer 0)) = Inl e"
  shows "snd (build_data_update env buffer w) = Raises (UnboundLocalError ''delta'')
       \<and> snd (build_data_create env buffer w) = Raises (UnboundLocalError ''id_proxy'')"
  using build_data_update_decode_raises [OF assms] build_data_create_decode_raises [OF assms]
  by simp

theorem decode_failure_leaves_handler_witness:
  "use_experimental_sync ex_world
   \<and> codec_decode ex_env (fst (decode_string ex_env (ex_encode_string ''garbage'') 0))
       = Inl (Raised ''DecodeError'')
   \<and> snd (build_data_update ex_env (ex_encode_string ''garbage'') ex_world)
       = Raises (UnboundLocalError ''delta'')
   \<and> snd (build_data_create ex_env (ex_encode_string ''garbage'') ex_world)
       = Raises (UnboundLocalError ''id_proxy'')"
proof -
  have on: "use_experimental_sync ex_world"
    by (simp add: ex_world_def)
  have dec: "codec_decode ex_env (fst (decode_string ex_env (ex_encode_string ''garbage'') 0))
               = Inl (Raised ''DecodeError'')"
    by (simp add: ex_env_def ex_encode_string_def ex_decode_string_def ex_codec_decode_def)
  show ?thesis
    using on dec decode_failure_leaves_handler [OF on dec] by simp
qed

text \<open>
  C8, where the code departs from it. With the switch on, when the payload decodes and
  the store raises, the handler of \<open>build_data_update\<close> (of \<open>build_data_create\<close>)
  logs the error, the traceback, the record, the first 200 characters of the decoded
  buffer and \<open>...\<close>; the record it logs next is \<open>buffer[-200:0]\<close>, which is the
  empty string for every buffer, not the last 200 characters. When it is the decoding
  that raises, the handler is left before any part of the buffer is logged.
\<close>

theorem handler_logs_head_and_empty_tail:
  assumes "use_experimental_sync w"
    and "codec_decode env (fst (decode_string env buffer 0)) = Inr p"
  shows "(snd (update_datablock env p (bpy_data_proxy w)) = Inl e \<longrightarrow>
          logger (fst (build_data_update env buffer w)) =
            logger w @ [INFO (''build_data_update: '' @ str_of env p),
                        ERROR ''Exception during build_data_update'']
              @ map ERROR (format_exc env e)
              @ [ERROR (''During processing of buffer for '' @ str_of env p),
                 ERROR (take 200 (fst (decode_string env buffer 0))),
                 ERROR ''...'', ERROR [], ERROR ''ignored''])
       \<and> (snd (create_datablock env p (bpy_data_proxy w)) = Inl e \<longrightarrow>
          logger (fst (build_data_create env buffer w)) =
            logger w @ [INFO (''build_data_create: '' @ str_of env p),
                        ERROR ''Exception during build_data_create'']
              @ map ERROR (format_exc env e)
              @ [ERROR (''During processing of buffer for '' @ str_of env p),
                 ERROR (take 200 (fst (decode_string env buffer 0))),
                 ERROR ''...'', ERROR [], ERROR ''ignored''])"
proof -
  have update: "logger (fst (build_data_update env buffer w)) =
            logger w @ [INFO (''build_data_update: '' @ str_of env p),
                        ERROR ''Exception during build_data_update'']
              @ map ERROR (format_exc env e)
              @ [ERROR (''During processing of buffer for '' @ str_of env p),
                 ERROR (take 200 (fst (decode_string env buffer 0))),
                 ERROR ''...'', ERROR [], ERROR ''ignored'']"
    if raised: "snd (update_datablock env p (bpy_data_proxy w)) = Inl e"
  proof -
    obtain store where "update_datablock env p (bpy_data_proxy w) = (store, Inl e)"
      using raised by (cases "update_datablock env p (bpy_data_proxy w)") simp
    from build_data_update_store_raises [OF assms this] show ?thesis
      by (simp add: build_data_update_except_bound py_slice_head py_slice_tail_empty world_defs)
  qed
  have create: "logger (fst (build_data_create env buffer w)) =
            logger w @ [INFO (''build_data_create: '' @ str_of env p),
                        ERROR ''Exception during build_data_create'']
              @ map ERROR (format_exc env e)
              @ [ERROR (''During processing of buffer for '' @ str_of env p),
                 ERROR (take 200 (fst (decode_string env buffer 0))),
                 ERROR ''...'', ERROR [], ERROR ''ignored'']"
    if raised: "snd (create_datablock env p (bpy_data_proxy w)) = Inl e"
  proof -
    obtain store where "create_datablock env p (bpy_data_proxy w) = (store, Inl e)"
      using raised by (cases "create_datablock env p (bpy_data_proxy w)") simp
    from build_data_create_store_raises [OF assms this] show ?thesis
      by (simp add: build_data_create_except_bound py_slice_head py_slice_tail_empty world_defs)
  qed
  show ?thesis
    using update create by blast
qed

theorem handler_logs_head_and_empty_tail_witness:
  "use_experimental_sync ex_world
   \<and> snd (update_datablock ex_env (''uuid-7'', ''Cube'') (bpy_data_proxy ex_world))
       = Inl (Raised ''KeyError'')
   \<and> logger (fst (build_data_update ex_env (ex_encode_string ''uuid-7|Cube'') ex_world)) =
       [INFO ''build_data_update: Cube#uuid-7'',
        ERROR ''Exception during build_data_update'',
        ERROR ''Traceback (most recent call last):'', ERROR ''KeyError'',
        ERROR ''During processing of buffer for Cube#uuid-7'',
        ERROR ''uuid-7|Cube'', ERROR ''...'', ERROR [], ERROR ''ignored'']"
proof -
  have on: "use_experimental_sync ex_world"
    by (simp add: ex_world_def)
  have dec: "codec_decode ex_env (fst (decode_string ex_env (ex_encode_string ''uuid-7|Cube'') 0))
               = Inr (''uuid-7'', ''Cube'')"
    by (simp add: ex_env_def ex_encode_string_def ex_decode_string_def ex_codec_decode_def)
  have raises: "snd (update_datablock ex_env (''uuid-7'', ''Cube'') (bpy_data_proxy ex_world))
                  = Inl (Raised ''KeyError'')"
    by (simp add: ex_env_def ex_world_def ex_update_datablock_def)
  have q: "logger ex_world = []" "str_of ex_env (''uuid-7'', ''Cube'') = ''Cube#uuid-7''"
    "format_exc ex_env (Raised ''KeyError'') = [''Traceback (most recent call last):'', ''KeyError'']"
    "fst (decode_string ex_env (ex_encode_string ''uuid-7|Cube'') 0) = ''uuid-7|Cube''"
    by (simp_all add: ex_world_def ex_env_def ex_str_of_def ex_encode_string_def
        ex_decode_string_def)
  show ?thesis
    using on raises q handler_logs_head_and_empty_tail [OF on dec, of "Raised ''KeyError''"]
    by simp
qed

end
